theory Spec2Isabelle
  imports Complex_Main "HOL-Library.Word" "HOL-Library.DAList" "HOL-Library.Multiset"
begin

unbundle bit_operations_syntax

section \<open>Package provider: tile references and the provider registry\<close>

text \<open>
  A shallow embedding of \<^verbatim>\<open>provider/provider.go\<close>. Every definition below is the
  translation of the Go declaration of the same name. Go values that may be \<^verbatim>\<open>nil\<close>
  (function values, interface values, the map itself) are \<open>option\<close>s with \<open>None\<close> for
  \<^verbatim>\<open>nil\<close>; a \<^verbatim>\<open>nil\<close> slice is the empty list; a Go \<^verbatim>\<open>error\<close> result is an
  \<open>error option\<close>.
\<close>

subsection \<open>Provider types and filters\<close>

text \<open>\<^verbatim>\<open>type providerType uint8\<close> with \<^verbatim>\<open>TypeStd = iota\<close> and \<^verbatim>\<open>TypeMvt\<close>.\<close>

type_synonym providerType = "8 word"

definition TypeStd :: providerType where
  "TypeStd = 0"

definition TypeMvt :: providerType where
  "TypeMvt = 1"

definition Prefix :: "providerType \<Rightarrow> string" where
  "Prefix pt = (if pt = TypeMvt then ''mvt_'' else '''')"

definition providerType_String :: "providerType \<Rightarrow> string" where
  "providerType_String pt = (if pt = TypeMvt then ''MVT Provider'' else ''Standard Provider'')"

text \<open>
  \<^verbatim>\<open>type providerFilter uint8\<close>. In the constant block \<^verbatim>\<open>ProviderFilterNone\<close> is on the
  line where \<^verbatim>\<open>iota\<close> is 0, \<^verbatim>\<open>ProviderFilterStd = 1 << iota\<close> on the line where it is 1
  and \<^verbatim>\<open>ProviderFilterMVT\<close> repeats that expression where it is 2.
\<close>

type_synonym providerFilter = "8 word"

definition ProviderFilterNone :: providerFilter where
  "ProviderFilterNone = 0"

definition ProviderFilterStd :: providerFilter where
  "ProviderFilterStd = push_bit 1 1"

definition ProviderFilterMVT :: providerFilter where
  "ProviderFilterMVT = push_bit 2 1"

definition ProviderFilterAll :: providerFilter where
  "ProviderFilterAll = ProviderFilterStd OR ProviderFilterMVT"

subsection \<open>Tile references\<close>

text \<open>
  \<^verbatim>\<open>tile_t\<close> embeds \<^verbatim>\<open>slippy.Tile\<close> (fields \<^verbatim>\<open>Z\<close>, \<^verbatim>\<open>X\<close>, \<^verbatim>\<open>Y\<close> of type \<^verbatim>\<open>uint\<close>)
  and adds \<^verbatim>\<open>buffer uint\<close>. Go's \<^verbatim>\<open>uint\<close> is taken at its 64-bit width; no function
  here computes with these fields.
\<close>

type_synonym uint = "64 word"

record slippy_Tile =
  Z :: uint
  X :: uint
  Y :: uint

record tile_t =
  Tile :: slippy_Tile
  buffer :: uint

definition NewTile :: "uint \<Rightarrow> uint \<Rightarrow> uint \<Rightarrow> uint \<Rightarrow> uint \<Rightarrow> tile_t" where
  "NewTile z x y buf srid = \<lparr>Tile = \<lparr>Z = z, X = x, Y = y\<rparr>, buffer = buf\<rparr>"

text \<open>
  \<^verbatim>\<open>Extent3857\<close>, \<^verbatim>\<open>ExpandBy\<close> and \<^verbatim>\<open>Pixels2Webs\<close> belong to the external geometry
  library (\<^verbatim>\<open>go-spatial/geom\<close>) and compute with \<^verbatim>\<open>float64\<close>. They are parameters of
  the two methods that call them: \<open>'e\<close> stands for \<^verbatim>\<open>*geom.Extent\<close> and \<open>'f\<close> for
  \<^verbatim>\<open>float64\<close>.
\<close>

definition Extent :: "(slippy_Tile \<Rightarrow> 'e) \<Rightarrow> tile_t \<Rightarrow> 'e \<times> 64 word" where
  "Extent extent3857 tile = (extent3857 (Tile tile), 3857)"

definition BufferedExtent ::
  "(slippy_Tile \<Rightarrow> 'e) \<Rightarrow> ('e \<Rightarrow> 'f \<Rightarrow> 'e) \<Rightarrow> (uint \<Rightarrow> uint \<Rightarrow> 'f) \<Rightarrow> tile_t \<Rightarrow> 'e \<times> 64 word" where
  "BufferedExtent extent3857 expandBy pixels2Webs tile =
     (expandBy (extent3857 (Tile tile)) (pixels2Webs (Z (Tile tile)) (buffer tile)), 3857)"

text \<open>
  Modelled from the spec: \<^verbatim>\<open>ExpandBy\<close> and \<^verbatim>\<open>Pixels2Webs\<close>, which the source calls and
  does not define. An extent is an axis-aligned box, its least and its greatest corner;
  the buffered extent is the extent "expanded outward on all four sides", "symmetrically
  in each direction", by the buffer converted from pixels to projected units at the zoom
  of the tile, with a scale proportional to \<open>1 / 2 ^ zoom\<close>. The factor \<open>scale\<close> (projected
  units per pixel at zoom 0) is left open by the spec and is an argument. Numbers are
  real numbers.
\<close>

type_synonym geom_Extent = "real \<times> real \<times> real \<times> real"

definition ExpandBy :: "geom_Extent \<Rightarrow> real \<Rightarrow> geom_Extent" where
  "ExpandBy e s =
     (case e of (minx, miny, maxx, maxy) \<Rightarrow> (minx - s, miny - s, maxx + s, maxy + s))"

definition Pixels2Webs :: "real \<Rightarrow> uint \<Rightarrow> uint \<Rightarrow> real" where
  "Pixels2Webs scale zoom pixels = scale * real (unat pixels) / 2 ^ unat zoom"

subsection \<open>Errors\<close>

text \<open>
  Modelled from the spec: the error values of the package, which are declared outside
  \<^verbatim>\<open>provider.go\<close>. \<^verbatim>\<open>ErrNilInitFunc\<close> is a single value; \<^verbatim>\<open>ErrUnknownProvider\<close> has the
  fields \<^verbatim>\<open>KnownProviders\<close> and \<^verbatim>\<open>Name\<close>; \<^verbatim>\<open>ErrInvalidProviderType\<close> has the fields
  \<^verbatim>\<open>Name\<close>, \<^verbatim>\<open>Type\<close> and \<^verbatim>\<open>KnownProviders\<close>; \<^verbatim>\<open>ErrInvalidRegisteredProvider\<close> has the
  field \<^verbatim>\<open>Name\<close>. A field that a struct literal leaves out holds its zero value (the
  empty string, the empty list). \<open>ErrorString\<close> is an error that is only a message: what
  \<^verbatim>\<open>fmt.Errorf\<close> returns, and any error a provider may return.
\<close>

datatype error =
    ErrNilInitFunc
  | ErrUnknownProvider "string list" string
  | ErrInvalidProviderType string providerType "string list"
  | ErrInvalidRegisteredProvider string
  | ErrorString string

subsection \<open>Tilers and the union of the two\<close>

text \<open>
  An interface value is modelled by what its methods return. \<^verbatim>\<open>Tiler\<close> and \<^verbatim>\<open>MVTTiler\<close>
  both embed \<^verbatim>\<open>Layerer\<close>, whose one method \<^verbatim>\<open>Layers() ([]LayerInfo, error)\<close> is the only
  method this file calls; \<open>'l\<close> stands for \<^verbatim>\<open>LayerInfo\<close>.
\<close>

datatype 'l Tiler = Tiler (Tiler_Layers: "'l list \<times> error option")

datatype 'l MVTTiler = MVTTiler (MVTTiler_Layers: "'l list \<times> error option")

record 'l TilerUnion =
  Std :: "'l Tiler option"
  Mvt :: "'l MVTTiler option"

definition TilerUnion_Layers :: "'l TilerUnion \<Rightarrow> 'l list \<times> error option" where
  "TilerUnion_Layers tu =
     (case Std tu of
        Some t \<Rightarrow> Tiler_Layers t
      | None \<Rightarrow>
          (case Mvt tu of
             Some m \<Rightarrow> MVTTiler_Layers m
           | None \<Rightarrow> ([], Some ErrNilInitFunc)))"

subsection \<open>The registry\<close>

text \<open>
  \<open>'c\<close> stands for the configuration \<^verbatim>\<open>dict.Dicter\<close>. A cleanup hook is a \<^verbatim>\<open>func()\<close>: it
  returns nothing and acts on the world outside the registry, a value of type \<open>'w\<close>.
  Initializers and hooks are functions of their argument: they do not themselves call
  into the registry.
\<close>

type_synonym ('c, 'l) InitFunc = "'c \<Rightarrow> 'l Tiler option \<times> error option"

type_synonym ('c, 'l) MVTInitFunc = "'c \<Rightarrow> 'l MVTTiler option \<times> error option"

type_synonym 'w CleanupFunc = "'w \<Rightarrow> 'w"

record ('c, 'l, 'w) pfns =
  init :: "('c, 'l) InitFunc option"
  mvtInit :: "('c, 'l) MVTInitFunc option"
  cleanup :: "'w CleanupFunc option"

text \<open>
  The package variable \<^verbatim>\<open>providers map[string]pfns\<close> is \<^verbatim>\<open>nil\<close> until the first
  registration. A Go map holds each key once: the map is an association list with
  distinct keys. The state also holds the world the cleanup hooks act on and the lines
  given to \<^verbatim>\<open>log.Info\<close>.
\<close>

record ('c, 'l, 'w) state =
  providers :: "(string, ('c, 'l, 'w) pfns) alist option"
  env :: 'w
  logged :: "string list"

definition init_state :: "'w \<Rightarrow> ('c, 'l, 'w) state" where
  "init_state w = \<lparr>providers = None, env = w, logged = []\<rparr>"

text \<open>\<^verbatim>\<open>p, ok := providers[name]\<close>: reading a \<^verbatim>\<open>nil\<close> map finds nothing.\<close>

definition registered :: "('c, 'l, 'w) state \<Rightarrow> string \<Rightarrow> ('c, 'l, 'w) pfns option" where
  "registered s name =
     (case providers s of None \<Rightarrow> None | Some m \<Rightarrow> DAList.lookup m name)"

definition entries :: "('c, 'l, 'w) state \<Rightarrow> (string \<times> ('c, 'l, 'w) pfns) list" where
  "entries s = (case providers s of None \<Rightarrow> [] | Some m \<Rightarrow> DAList.impl_of m)"

definition Register ::
  "('c, 'l, 'w) state \<Rightarrow> string \<Rightarrow> ('c, 'l) InitFunc option \<Rightarrow> 'w CleanupFunc option
     \<Rightarrow> ('c, 'l, 'w) state \<times> error option" where
  "Register s name ini cln =
     (if ini = None then (s, Some ErrNilInitFunc)
      else
        let m = (case providers s of None \<Rightarrow> DAList.empty | Some m \<Rightarrow> m);
            s1 = s\<lparr>providers := Some m\<rparr>
        in if DAList.lookup m name \<noteq> None
           then (s1, Some (ErrorString (''provider '' @ name @ '' already exists'')))
           else (s1\<lparr>providers :=
                      Some (DAList.update name \<lparr>init = ini, mvtInit = None, cleanup = cln\<rparr> m)\<rparr>,
                 None))"

definition MVTRegister ::
  "('c, 'l, 'w) state \<Rightarrow> string \<Rightarrow> ('c, 'l) MVTInitFunc option \<Rightarrow> 'w CleanupFunc option
     \<Rightarrow> ('c, 'l, 'w) state \<times> error option" where
  "MVTRegister s name ini cln =
     (if ini = None then (s, Some ErrNilInitFunc)
      else
        let m = (case providers s of None \<Rightarrow> DAList.empty | Some m \<Rightarrow> m);
            s1 = s\<lparr>providers := Some m\<rparr>
        in if DAList.lookup m name \<noteq> None
           then (s1, Some (ErrorString (''provider '' @ name @ '' already exists'')))
           else (s1\<lparr>providers :=
                      Some (DAList.update name \<lparr>init = None, mvtInit = ini, cleanup = cln\<rparr> m)\<rparr>,
                 None))"

text \<open>
  \<^verbatim>\<open>for k, v := range providers\<close> visits every entry of the map once, in an order that
  Go chooses anew each time the loop is entered. The choice is an argument \<open>ro\<close> of every
  function that ranges over the map: a list of numbers, each of which picks the entry
  visited next among those not visited yet (when the numbers run out the remaining
  entries follow as stored). Every order of the entries is the result of some choice,
  and every choice gives an order of all the entries.
\<close>

fun range_order :: "nat list \<Rightarrow> 'a list \<Rightarrow> 'a list" where
  "range_order [] es = es"
| "range_order (n # ro) es =
     (if es = [] then []
      else let i = n mod length es
           in es ! i # range_order ro (take i es @ drop (Suc i) es))"

text \<open>
  The loop of \<^verbatim>\<open>Drivers\<close> over the entries in the order of the range: \<open>l\<close> is the slice
  built so far. The \<^verbatim>\<open>switch\<close> tries \<^verbatim>\<open>ProviderFilterAll\<close>, \<^verbatim>\<open>ProviderFilterMVT\<close>,
  \<^verbatim>\<open>ProviderFilterStd\<close> in this order and skips the entry for any other filter value.
\<close>

fun Drivers_range ::
  "providerFilter \<Rightarrow> (string \<times> ('c, 'l, 'w) pfns) list \<Rightarrow> string list \<Rightarrow> string list" where
  "Drivers_range FilterType [] l = l"
| "Drivers_range FilterType ((k, v) # rest) l =
     (if FilterType = ProviderFilterAll then Drivers_range FilterType rest (l @ [k])
      else if FilterType = ProviderFilterMVT then
        (if mvtInit v = None then Drivers_range FilterType rest l
         else Drivers_range FilterType rest (l @ [k]))
      else if FilterType = ProviderFilterStd then
        (if init v = None then Drivers_range FilterType rest l
         else Drivers_range FilterType rest (l @ [k]))
      else Drivers_range FilterType rest l)"

definition Drivers :: "nat list \<Rightarrow> ('c, 'l, 'w) state \<Rightarrow> providerFilter \<Rightarrow> string list" where
  "Drivers ro s FilterType =
     (case providers s of
        None \<Rightarrow> []
      | Some m \<Rightarrow>
          if FilterType = ProviderFilterNone then []
          else Drivers_range FilterType (range_order ro (DAList.impl_of m)) [])"

text \<open>\<^verbatim>\<open>For\<close> calls \<^verbatim>\<open>Drivers\<close> once; \<open>ro\<close> is the order of that range.\<close>

definition For ::
  "nat list \<Rightarrow> ('c, 'l, 'w) state \<Rightarrow> string \<Rightarrow> 'c \<Rightarrow> 'l TilerUnion \<times> error option" where
  "For ro s name config =
     (let driversList = Drivers ro s ProviderFilterAll;
          val = \<lparr>Std = None, Mvt = None\<rparr>
      in case providers s of
           None \<Rightarrow> (val, Some (ErrUnknownProvider driversList ''''))
         | Some m \<Rightarrow>
             (case DAList.lookup m name of
                None \<Rightarrow> (val, Some (ErrUnknownProvider driversList name))
              | Some p \<Rightarrow>
                  (case init p of
                     Some f \<Rightarrow> (val\<lparr>Std := fst (f config)\<rparr>, snd (f config))
                   | None \<Rightarrow>
                       (case mvtInit p of
                          Some g \<Rightarrow> (val\<lparr>Mvt := fst (g config)\<rparr>, snd (g config))
                        | None \<Rightarrow> (val, Some (ErrInvalidRegisteredProvider name))))))"

text \<open>
  \<^verbatim>\<open>STDFor\<close> calls \<^verbatim>\<open>Drivers\<close> when it builds \<^verbatim>\<open>err\<close>, with the range order \<open>ro\<close>, and
  once more for \<^verbatim>\<open>ErrInvalidProviderType\<close>, with the range order \<open>ro'\<close>. \<^verbatim>\<open>MVTFor\<close> calls
  it in one of two branches, so at most once.
\<close>

definition STDFor ::
  "nat list \<Rightarrow> nat list \<Rightarrow> ('c, 'l, 'w) state \<Rightarrow> string \<Rightarrow> 'c
     \<Rightarrow> 'l Tiler option \<times> error option" where
  "STDFor ro ro' s name config =
     (let known = Drivers ro s ProviderFilterStd
      in case providers s of
           None \<Rightarrow> (None, Some (ErrUnknownProvider known ''''))
         | Some m \<Rightarrow>
             (case DAList.lookup m name of
                None \<Rightarrow> (None, Some (ErrUnknownProvider known name))
              | Some p \<Rightarrow>
                  (case init p of
                     None \<Rightarrow>
                       (None, Some (ErrInvalidProviderType name TypeStd
                                      (Drivers ro' s ProviderFilterStd)))
                   | Some f \<Rightarrow> f config)))"

definition MVTFor ::
  "nat list \<Rightarrow> ('c, 'l, 'w) state \<Rightarrow> string \<Rightarrow> 'c \<Rightarrow> 'l MVTTiler option \<times> error option" where
  "MVTFor ro s name config =
     (case providers s of
        None \<Rightarrow> (None, Some (ErrUnknownProvider [] ''''))
      | Some m \<Rightarrow>
          (case DAList.lookup m name of
             None \<Rightarrow> (None, Some (ErrUnknownProvider (Drivers ro s ProviderFilterMVT) name))
           | Some p \<Rightarrow>
               (case mvtInit p of
                  None \<Rightarrow>
                    (None, Some (ErrInvalidProviderType name TypeMvt
                                   (Drivers ro s ProviderFilterMVT)))
                | Some g \<Rightarrow> g config)))"

text \<open>
  The loop of \<^verbatim>\<open>Cleanup\<close> over the entries in the order of the range: every hook that
  is not \<^verbatim>\<open>nil\<close> runs, in turn.
\<close>

fun Cleanup_range :: "(string \<times> ('c, 'l, 'w) pfns) list \<Rightarrow> 'w \<Rightarrow> 'w" where
  "Cleanup_range [] w = w"
| "Cleanup_range ((k, p) # rest) w =
     (case cleanup p of
        None \<Rightarrow> Cleanup_range rest w
      | Some h \<Rightarrow> Cleanup_range rest (h w))"

definition Cleanup :: "nat list \<Rightarrow> ('c, 'l, 'w) state \<Rightarrow> ('c, 'l, 'w) state" where
  "Cleanup ro s =
     (let s1 = s\<lparr>logged := logged s @ [''cleaning up providers'']\<rparr>
      in s1\<lparr>env := Cleanup_range (range_order ro (entries s1)) (env s1)\<rparr>)"

subsection \<open>Sequences of calls\<close>

text \<open>
  A client of the package can only call its exported functions. A call that ranges over
  the map comes with the order of each of its ranges. \<open>step\<close> makes one call and keeps
  the state it leaves; \<open>run\<close> makes the calls of a list in turn. The four lookups read
  the registry and write nothing.
\<close>

datatype ('c, 'l, 'w) call =
    CallRegister string "('c, 'l) InitFunc option" "'w CleanupFunc option"
  | CallMVTRegister string "('c, 'l) MVTInitFunc option" "'w CleanupFunc option"
  | CallDrivers "nat list" providerFilter
  | CallFor "nat list" string 'c
  | CallSTDFor "nat list" "nat list" string 'c
  | CallMVTFor "nat list" string 'c
  | CallCleanup "nat list"

fun step :: "('c, 'l, 'w) state \<Rightarrow> ('c, 'l, 'w) call \<Rightarrow> ('c, 'l, 'w) state" where
  "step s (CallRegister name ini cln) = fst (Register s name ini cln)"
| "step s (CallMVTRegister name ini cln) = fst (MVTRegister s name ini cln)"
| "step s (CallDrivers ro FilterType) = s"
| "step s (CallFor ro name config) = s"
| "step s (CallSTDFor ro ro' name config) = s"
| "step s (CallMVTFor ro name config) = s"
| "step s (CallCleanup ro) = Cleanup ro s"

fun run :: "('c, 'l, 'w) state \<Rightarrow> ('c, 'l, 'w) call list \<Rightarrow> ('c, 'l, 'w) state" where
  "run s [] = s"
| "run s (c # cs) = run (step s c) cs"

subsection \<open>A small registry\<close>

text \<open>
  One standard and one alternate provider, registered in this order on the empty
  registry; the configuration is \<open>()\<close> and the world a counter that the cleanup hook of
  the second provider increments.
\<close>

definition demo_std :: "(unit, nat) InitFunc" where
  "demo_std c = (Some (Tiler ([7], None)), None)"

definition demo_mvt :: "(unit, nat) MVTInitFunc" where
  "demo_mvt c = (Some (MVTTiler ([8], None)), None)"

definition demo_calls :: "(unit, nat, nat) call list" where
  "demo_calls =
     [CallRegister ''std'' (Some demo_std) None,
      CallMVTRegister ''mvt'' (Some demo_mvt) (Some Suc)]"

definition demo_registry :: "(unit, nat, nat) state" where
  "demo_registry = run (init_state 0) demo_calls"

section \<open>Properties\<close>

subsection \<open>The filter constants\<close>

lemma filter_values:
  "ProviderFilterNone = 0" "ProviderFilterStd = 2" "ProviderFilterMVT = 4"
  "ProviderFilterAll = 6"
  by (simp_all add: ProviderFilterNone_def ProviderFilterStd_def ProviderFilterMVT_def
      ProviderFilterAll_def)

lemma filter_neq:
  "ProviderFilterAll \<noteq> ProviderFilterNone" "ProviderFilterStd \<noteq> ProviderFilterNone"
  "ProviderFilterMVT \<noteq> ProviderFilterNone" "ProviderFilterMVT \<noteq> ProviderFilterAll"
  "ProviderFilterStd \<noteq> ProviderFilterAll" "ProviderFilterStd \<noteq> ProviderFilterMVT"
  by (simp_all add: filter_values)

subsection \<open>The order of a range\<close>

text \<open>Whatever the choice, a range visits the entries of the map, each as often as stored.\<close>

lemma range_order_Nil [simp]: "range_order ro [] = []"
  by (cases ro) simp_all

lemma mset_range_order: "mset (range_order ro es) = mset es"
proof (induction ro arbitrary: es)
  case Nil
  then show ?case by simp
next
  case (Cons n ro)
  show ?case
  proof (cases "es = []")
    case True
    then show ?thesis by simp
  next
    case False
    define i where "i = n mod length es"
    from False have i: "i < length es" by (simp add: i_def)
    have "mset es = mset (take i es @ es ! i # drop (Suc i) es)"
      using id_take_nth_drop [OF i] by simp
    then have "mset es = add_mset (es ! i) (mset (take i es @ drop (Suc i) es))"
      by simp
    with False Cons.IH [of "take i es @ drop (Suc i) es"] show ?thesis
      by (simp add: Let_def i_def)
  qed
qed

lemma set_range_order: "set (range_order ro es) = set es"
  using mset_range_order [of ro es] by (rule mset_eq_setD)

lemma distinct_map_range_order:
  "distinct (map f (range_order ro es)) \<longleftrightarrow> distinct (map f es)"
proof -
  have "mset (map f (range_order ro es)) = mset (map f es)"
    by (simp add: mset_range_order)
  then show ?thesis by (rule mset_eq_imp_distinct_iff)
qed

text \<open>Every order of the entries is the order of some range.\<close>

lemma range_order_any: "mset ys = mset es \<Longrightarrow> \<exists>ro. range_order ro es = ys"
proof (induction ys arbitrary: es)
  case Nil
  then have "range_order [] es = []" by simp
  then show ?case by blast
next
  case (Cons y ys)
  then have "y \<in> set es"
    by (metis list.set_intros(1) mset_eq_setD)
  then obtain i where i: "i < length es" "es ! i = y"
    by (auto simp: in_set_conv_nth)
  have "mset es = mset (take i es @ es ! i # drop (Suc i) es)"
    using id_take_nth_drop [OF i(1)] by simp
  then have "add_mset y (mset (take i es @ drop (Suc i) es)) = mset es"
    using i(2) by simp
  with Cons.prems
  have "add_mset y (mset ys) = add_mset y (mset (take i es @ drop (Suc i) es))"
    by simp
  then have "mset ys = mset (take i es @ drop (Suc i) es)"
    by (simp only: add_mset_add_mset_same_iff)
  from Cons.IH [OF this]
  obtain ro where ro: "range_order ro (take i es @ drop (Suc i) es) = ys"
    by blast
  from i have "es \<noteq> []" by auto
  with i ro have "range_order (i # ro) es = y # ys"
    by (simp add: Let_def)
  then show ?case by blast
qed

subsection \<open>What the loop of Drivers collects\<close>

lemma Drivers_range_All:
  "Drivers_range ProviderFilterAll es l = l @ map fst es"
  by (induction es arbitrary: l) auto

lemma Drivers_range_MVT:
  "Drivers_range ProviderFilterMVT es l =
     l @ map fst (filter (\<lambda>e. mvtInit (snd e) \<noteq> None) es)"
  by (induction es arbitrary: l) (auto simp: filter_neq)

lemma Drivers_range_Std:
  "Drivers_range ProviderFilterStd es l =
     l @ map fst (filter (\<lambda>e. init (snd e) \<noteq> None) es)"
  by (induction es arbitrary: l) (auto simp: filter_neq)

lemma Drivers_None: "Drivers ro s ProviderFilterNone = []"
  by (simp add: Drivers_def split: option.splits)

lemma Drivers_All: "Drivers ro s ProviderFilterAll = map fst (range_order ro (entries s))"
  by (simp add: Drivers_def entries_def Drivers_range_All filter_neq split: option.splits)

lemma Drivers_MVT:
  "Drivers ro s ProviderFilterMVT =
     map fst (filter (\<lambda>e. mvtInit (snd e) \<noteq> None) (range_order ro (entries s)))"
  by (simp add: Drivers_def entries_def Drivers_range_MVT filter_neq split: option.splits)

lemma Drivers_Std:
  "Drivers ro s ProviderFilterStd =
     map fst (filter (\<lambda>e. init (snd e) \<noteq> None) (range_order ro (entries s)))"
  by (simp add: Drivers_def entries_def Drivers_range_Std filter_neq split: option.splits)

lemma distinct_entries: "distinct (map fst (entries s))"
  by (simp add: entries_def split: option.splits)

lemma registered_map_of: "registered s = map_of (entries s)"
  by (auto simp: registered_def entries_def DAList.lookup.rep_eq split: option.splits)

lemma entry_registered: "(n, p) \<in> set (entries s) \<longleftrightarrow> registered s n = Some p"
  by (simp add: registered_map_of distinct_entries)

lemma set_Drivers_All: "set (Drivers ro s ProviderFilterAll) = {n. registered s n \<noteq> None}"
  by (auto simp: Drivers_All set_range_order registered_map_of map_of_eq_None_iff)

lemma set_Drivers_Std:
  "set (Drivers ro s ProviderFilterStd)
     = {n. \<exists>p. registered s n = Some p \<and> init p \<noteq> None}"
  by (force simp: Drivers_Std set_range_order entry_registered[symmetric])

lemma set_Drivers_MVT:
  "set (Drivers ro s ProviderFilterMVT) =
     {n. \<exists>p. registered s n = Some p \<and> mvtInit p \<noteq> None}"
  by (force simp: Drivers_MVT set_range_order entry_registered[symmetric])

text \<open>Whatever the filter value and the order of the range, no name is listed twice.\<close>

lemma distinct_Drivers_range:
  "distinct l \<Longrightarrow> set l \<inter> fst ` set es = {} \<Longrightarrow> distinct (map fst es)
     \<Longrightarrow> distinct (Drivers_range ft es l)"
  by (induction es arbitrary: l) auto

lemma distinct_Drivers: "distinct (Drivers ro s ft)"
proof (cases "providers s")
  case None
  then show ?thesis by (simp add: Drivers_def)
next
  case (Some m)
  have "distinct (Drivers_range ft (range_order ro (DAList.impl_of m)) [])"
    by (rule distinct_Drivers_range) (simp_all add: distinct_map_range_order)
  with Some show ?thesis by (simp add: Drivers_def)
qed

subsection \<open>Registration\<close>

lemma Register_nil: "Register s name None cln = (s, Some ErrNilInitFunc)"
  by (simp add: Register_def)

lemma MVTRegister_nil: "MVTRegister s name None cln = (s, Some ErrNilInitFunc)"
  by (simp add: MVTRegister_def)

text \<open>
  Claim C5. \<^verbatim>\<open>Register\<close> and \<^verbatim>\<open>MVTRegister\<close> called with a \<^verbatim>\<open>nil\<close> initializer return
  \<^verbatim>\<open>ErrNilInitFunc\<close>, whatever the name and the cleanup hook, and leave the whole state
  as it was: the map is not even allocated when it was \<^verbatim>\<open>nil\<close>, and no entry is
  added or changed.
\<close>

theorem nil_initializer_rejected:
  "Register s name None cln = (s, Some ErrNilInitFunc) \<and>
   MVTRegister s name None cln' = (s, Some ErrNilInitFunc) \<and>
   entries (fst (Register s name None cln)) = entries s \<and>
   entries (fst (MVTRegister s name None cln')) = entries s"
  by (simp add: Register_nil MVTRegister_nil)

lemma Register_dup:
  "registered s name \<noteq> None \<Longrightarrow>
   Register s name (Some f) cln
     = (s, Some (ErrorString (''provider '' @ name @ '' already exists'')))"
  by (auto simp: Register_def registered_def split: option.splits)

lemma MVTRegister_dup:
  "registered s name \<noteq> None \<Longrightarrow>
   MVTRegister s name (Some f) cln
     = (s, Some (ErrorString (''provider '' @ name @ '' already exists'')))"
  by (auto simp: MVTRegister_def registered_def split: option.splits)

text \<open>What a name is bound to after a call of either registration function.\<close>

lemma registered_Register:
  "registered (fst (Register s name ini cln)) k =
     (if ini \<noteq> None \<and> registered s name = None \<and> k = name
      then Some \<lparr>init = ini, mvtInit = None, cleanup = cln\<rparr>
      else registered s k)"
  by (auto simp: Register_def registered_def Let_def DAList.lookup_update
      split: option.splits)

lemma registered_MVTRegister:
  "registered (fst (MVTRegister s name ini cln)) k =
     (if ini \<noteq> None \<and> registered s name = None \<and> k = name
      then Some \<lparr>init = None, mvtInit = ini, cleanup = cln\<rparr>
      else registered s k)"
  by (auto simp: MVTRegister_def registered_def Let_def DAList.lookup_update
      split: option.splits)

lemma Register_ok_iff:
  "snd (Register s name ini cln) = None \<longleftrightarrow> ini \<noteq> None \<and> registered s name = None"
  by (auto simp: Register_def registered_def Let_def split: option.splits)

lemma MVTRegister_ok_iff:
  "snd (MVTRegister s name ini cln) = None \<longleftrightarrow> ini \<noteq> None \<and> registered s name = None"
  by (auto simp: MVTRegister_def registered_def Let_def split: option.splits)

lemma Register_ok:
  "Register s name ini cln = (s', None) \<Longrightarrow>
   registered s' name = Some \<lparr>init = ini, mvtInit = None, cleanup = cln\<rparr> \<and> ini \<noteq> None"
  using registered_Register [of s name ini cln name] Register_ok_iff [of s name ini cln]
  by simp

lemma MVTRegister_ok:
  "MVTRegister s name ini cln = (s', None) \<Longrightarrow>
   registered s' name = Some \<lparr>init = None, mvtInit = ini, cleanup = cln\<rparr> \<and> ini \<noteq> None"
  using registered_MVTRegister [of s name ini cln name]
    MVTRegister_ok_iff [of s name ini cln]
  by simp

lemma registered_Cleanup: "registered (Cleanup ro s) = registered s"
  by (rule ext) (simp add: Cleanup_def registered_def Let_def)

lemma registered_init_state: "registered (init_state w) k = None"
  by (simp add: registered_def init_state_def)

text \<open>No call removes or replaces an entry.\<close>

lemma registered_step_keeps:
  "registered s k = Some p \<Longrightarrow> registered (step s c) k = Some p"
  by (cases c) (auto simp: registered_Register registered_MVTRegister registered_Cleanup)

lemma registered_run_keeps:
  "registered s k = Some p \<Longrightarrow> registered (run s cs) k = Some p"
  by (induction cs arbitrary: s) (auto simp: registered_step_keeps)

text \<open>The rules that evaluate the registry functions on a given state.\<close>

lemmas registry_eval =
  Register_def MVTRegister_def Cleanup_def init_state_def entries_def registered_def
  Drivers_def Let_def DAList.lookup.rep_eq DAList.update.rep_eq DAList.empty.rep_eq
  filter_values demo_registry_def demo_calls_def

text \<open>
  Claim C4. When \<^verbatim>\<open>name\<close> is already bound to an entry \<open>p\<close>, of either flavor, both
  \<^verbatim>\<open>Register\<close> and \<^verbatim>\<open>MVTRegister\<close> called with an initializer that is not \<^verbatim>\<open>nil\<close>
  return the error \<^verbatim>\<open>provider <name> already exists\<close>; the state after the call is the
  state before it, so \<^verbatim>\<open>name\<close> is still bound to \<open>p\<close>.
\<close>

theorem duplicate_name_rejected:
  "registered s name = Some p \<Longrightarrow>
   Register s name (Some f) cln
     = (s, Some (ErrorString (''provider '' @ name @ '' already exists''))) \<and>
   MVTRegister s name (Some g) cln'
     = (s, Some (ErrorString (''provider '' @ name @ '' already exists''))) \<and>
   registered (fst (Register s name (Some f) cln)) name = Some p \<and>
   registered (fst (MVTRegister s name (Some g) cln')) name = Some p"
  by (simp add: Register_dup MVTRegister_dup)

theorem duplicate_name_rejected_witness:
  "registered demo_registry ''mvt''
     = Some \<lparr>init = None, mvtInit = Some demo_mvt, cleanup = Some Suc\<rparr> \<and>
   Register demo_registry ''mvt'' (Some demo_std) None
     = (demo_registry, Some (ErrorString ''provider mvt already exists'')) \<and>
   MVTRegister demo_registry ''mvt'' (Some (\<lambda>c. (None, None))) None
     = (demo_registry, Some (ErrorString ''provider mvt already exists''))"
proof -
  have h: "registered demo_registry ''mvt''
             = Some \<lparr>init = None, mvtInit = Some demo_mvt, cleanup = Some Suc\<rparr>"
    by (simp add: registry_eval)
  from duplicate_name_rejected [OF h, of demo_std None "\<lambda>c. (None, None)" None] h
  show ?thesis by simp
qed

subsection \<open>The invariant of the entries\<close>

lemma one_flavor_step:
  assumes "\<And>k p. registered s k = Some p \<Longrightarrow>
             (init p \<noteq> None \<and> mvtInit p = None) \<or> (init p = None \<and> mvtInit p \<noteq> None)"
    and "registered (step s c) k = Some p"
  shows "(init p \<noteq> None \<and> mvtInit p = None) \<or> (init p = None \<and> mvtInit p \<noteq> None)"
proof (cases c)
  case (CallRegister n i cl)
  with assms show ?thesis
    by (auto simp: registered_Register split: if_splits)
next
  case (CallMVTRegister n i cl)
  with assms show ?thesis
    by (auto simp: registered_MVTRegister split: if_splits)
next
  case (CallCleanup ro)
  with assms show ?thesis
    by (simp add: registered_Cleanup)
qed (use assms in simp_all)

lemma one_flavor_run:
  assumes "\<And>k p. registered s k = Some p \<Longrightarrow>
             (init p \<noteq> None \<and> mvtInit p = None) \<or> (init p = None \<and> mvtInit p \<noteq> None)"
    and "registered (run s cs) k = Some p"
  shows "(init p \<noteq> None \<and> mvtInit p = None) \<or> (init p = None \<and> mvtInit p \<noteq> None)"
  using assms
proof (induction cs arbitrary: s)
  case Nil
  then show ?case by simp
next
  case (Cons c cs)
  show ?case
  proof (rule Cons.IH)
    show "registered (run (step s c) cs) k = Some p"
      using Cons.prems(2) by simp
  next
    fix k' p'
    assume "registered (step s c) k' = Some p'"
    then show "(init p' \<noteq> None \<and> mvtInit p' = None) \<or> (init p' = None \<and> mvtInit p' \<noteq> None)"
      using Cons.prems(1) one_flavor_step [of s c k' p'] by blast
  qed
qed

text \<open>
  Claim C3. Start from the empty registry (the map is \<^verbatim>\<open>nil\<close>) and make any sequence
  of calls of \<^verbatim>\<open>Register\<close>, \<^verbatim>\<open>MVTRegister\<close>, \<^verbatim>\<open>Drivers\<close>, \<^verbatim>\<open>For\<close>, \<^verbatim>\<open>STDFor\<close>,
  \<^verbatim>\<open>MVTFor\<close> and \<^verbatim>\<open>Cleanup\<close>, with any arguments and any order of each range. Every
  entry of the map then has exactly one of \<^verbatim>\<open>init\<close> and \<^verbatim>\<open>mvtInit\<close> set: never both,
  never neither.
\<close>

theorem registry_invariant:
  "(name, p) \<in> set (entries (run (init_state w) cs)) \<Longrightarrow>
   (init p \<noteq> None \<and> mvtInit p = None) \<or> (init p = None \<and> mvtInit p \<noteq> None)"
  using one_flavor_run [of "init_state w" cs name p]
  by (simp add: registered_init_state entry_registered)

theorem registry_invariant_witness:
  "(''mvt'', \<lparr>init = None, mvtInit = Some demo_mvt, cleanup = Some Suc\<rparr>)
     \<in> set (entries (run (init_state 0)
          [CallRegister ''std'' (Some demo_std) None,
           CallMVTRegister ''mvt'' (Some demo_mvt) (Some Suc),
           CallRegister ''mvt'' (Some demo_std) None,
           CallMVTRegister ''none'' None None,
           CallFor [1] ''std'' (), CallDrivers [1, 0] ProviderFilterAll,
           CallSTDFor [] [1] ''mvt'' (), CallMVTFor [0] ''mvt'' (), CallCleanup [1]])) \<and>
   init \<lparr>init = None :: (unit, nat) InitFunc option, mvtInit = Some demo_mvt,
         cleanup = Some Suc\<rparr> = None \<and>
   mvtInit \<lparr>init = None :: (unit, nat) InitFunc option, mvtInit = Some demo_mvt,
            cleanup = Some Suc\<rparr> \<noteq> None"
  using registry_invariant [of "''mvt''"
      "\<lparr>init = None, mvtInit = Some demo_mvt, cleanup = Some Suc\<rparr>"
      "0::nat"
      "[CallRegister ''std'' (Some demo_std) None,
        CallMVTRegister ''mvt'' (Some demo_mvt) (Some Suc),
        CallRegister ''mvt'' (Some demo_std) None,
        CallMVTRegister ''none'' None None,
        CallFor [1] ''std'' (), CallDrivers [1, 0] ProviderFilterAll,
        CallSTDFor [] [1] ''mvt'' (), CallMVTFor [0] ''mvt'' (), CallCleanup [1]]"]
  by (simp add: registry_eval)

subsection \<open>Listing the names\<close>

lemma Std_listed:
  "registered s name = Some p \<Longrightarrow> init p \<noteq> None \<Longrightarrow> mvtInit p = None \<Longrightarrow>
   name \<in> set (Drivers ro (run s cs) ProviderFilterStd) \<and>
   name \<notin> set (Drivers ro' (run s cs) ProviderFilterMVT)"
  using registered_run_keeps [of s name p cs]
  by (simp add: set_Drivers_Std set_Drivers_MVT)

lemma MVT_listed:
  "registered s name = Some p \<Longrightarrow> init p = None \<Longrightarrow> mvtInit p \<noteq> None \<Longrightarrow>
   name \<in> set (Drivers ro (run s cs) ProviderFilterMVT) \<and>
   name \<notin> set (Drivers ro' (run s cs) ProviderFilterStd)"
  using registered_run_keeps [of s name p cs]
  by (simp add: set_Drivers_Std set_Drivers_MVT)

text \<open>
  Claim C6. In every state of the registry and for every order of the range,
  \<^verbatim>\<open>Drivers(ProviderFilterNone)\<close> is empty; \<^verbatim>\<open>Drivers(ProviderFilterAll)\<close> lists every
  registered name, each once; \<^verbatim>\<open>Drivers(ProviderFilterStd)\<close> lists, each once, the names
  whose entry has \<^verbatim>\<open>init\<close> set, and \<^verbatim>\<open>Drivers(ProviderFilterMVT)\<close> those whose entry has
  \<^verbatim>\<open>mvtInit\<close> set. A name that \<^verbatim>\<open>Register\<close> has accepted is in the standard list and
  not in the alternate list, right after the call and after any further calls \<open>cs\<close>; a
  name that \<^verbatim>\<open>MVTRegister\<close> has accepted is in the alternate list and not in the
  standard one. The statements are about the names listed, not about their order.
\<close>

theorem Drivers_lists:
  "Drivers ro s ProviderFilterNone = [] \<and>
   distinct (Drivers ro s ProviderFilterAll) \<and>
   set (Drivers ro s ProviderFilterAll) = {n. registered s n \<noteq> None} \<and>
   distinct (Drivers ro s ProviderFilterStd) \<and>
   set (Drivers ro s ProviderFilterStd)
     = {n. \<exists>p. registered s n = Some p \<and> init p \<noteq> None} \<and>
   distinct (Drivers ro s ProviderFilterMVT) \<and>
   set (Drivers ro s ProviderFilterMVT)
     = {n. \<exists>p. registered s n = Some p \<and> mvtInit p \<noteq> None} \<and>
   (Register s name ini cln = (s', None) \<longrightarrow>
      name \<in> set (Drivers ro (run s' cs) ProviderFilterStd) \<and>
      name \<notin> set (Drivers ro' (run s' cs) ProviderFilterMVT)) \<and>
   (MVTRegister s name mini cln = (s'', None) \<longrightarrow>
      name \<in> set (Drivers ro (run s'' cs) ProviderFilterMVT) \<and>
      name \<notin> set (Drivers ro' (run s'' cs) ProviderFilterStd))"
proof -
  have a: "Register s name ini cln = (s', None) \<longrightarrow>
      name \<in> set (Drivers ro (run s' cs) ProviderFilterStd) \<and>
      name \<notin> set (Drivers ro' (run s' cs) ProviderFilterMVT)"
  proof
    assume "Register s name ini cln = (s', None)"
    from Register_ok [OF this]
    show "name \<in> set (Drivers ro (run s' cs) ProviderFilterStd) \<and>
          name \<notin> set (Drivers ro' (run s' cs) ProviderFilterMVT)"
      by (intro Std_listed [of s' name "\<lparr>init = ini, mvtInit = None, cleanup = cln\<rparr>"])
        simp_all
  qed
  have b: "MVTRegister s name mini cln = (s'', None) \<longrightarrow>
      name \<in> set (Drivers ro (run s'' cs) ProviderFilterMVT) \<and>
      name \<notin> set (Drivers ro' (run s'' cs) ProviderFilterStd)"
  proof
    assume "MVTRegister s name mini cln = (s'', None)"
    from MVTRegister_ok [OF this]
    show "name \<in> set (Drivers ro (run s'' cs) ProviderFilterMVT) \<and>
          name \<notin> set (Drivers ro' (run s'' cs) ProviderFilterStd)"
      by (intro MVT_listed [of s'' name "\<lparr>init = None, mvtInit = mini, cleanup = cln\<rparr>"])
        simp_all
  qed
  show ?thesis
    using a b
    by (simp only: Drivers_None distinct_Drivers set_Drivers_All set_Drivers_Std
        set_Drivers_MVT simp_thms)
qed

theorem Drivers_lists_witness:
  "Register demo_registry ''osm'' (Some demo_std) None
     = (fst (Register demo_registry ''osm'' (Some demo_std) None), None) \<and>
   ''osm'' \<in> set (Drivers [2, 1]
                    (run (fst (Register demo_registry ''osm'' (Some demo_std) None))
                       [CallMVTRegister ''osm'' (Some demo_mvt) None, CallCleanup [1]])
                    ProviderFilterStd) \<and>
   ''osm'' \<notin> set (Drivers [1]
                    (run (fst (Register demo_registry ''osm'' (Some demo_std) None))
                       [CallMVTRegister ''osm'' (Some demo_mvt) None, CallCleanup [1]])
                    ProviderFilterMVT) \<and>
   MVTRegister demo_registry ''osm'' (Some demo_mvt) None
     = (fst (MVTRegister demo_registry ''osm'' (Some demo_mvt) None), None) \<and>
   ''osm'' \<in> set (Drivers [2, 1]
                    (run (fst (MVTRegister demo_registry ''osm'' (Some demo_mvt) None))
                       [CallMVTRegister ''osm'' (Some demo_mvt) None, CallCleanup [1]])
                    ProviderFilterMVT) \<and>
   ''osm'' \<notin> set (Drivers [1]
                    (run (fst (MVTRegister demo_registry ''osm'' (Some demo_mvt) None))
                       [CallMVTRegister ''osm'' (Some demo_mvt) None, CallCleanup [1]])
                    ProviderFilterStd)"
proof -
  have h1: "Register demo_registry ''osm'' (Some demo_std) None
              = (fst (Register demo_registry ''osm'' (Some demo_std) None), None)"
    by (simp add: registry_eval)
  have h2: "MVTRegister demo_registry ''osm'' (Some demo_mvt) None
              = (fst (MVTRegister demo_registry ''osm'' (Some demo_mvt) None), None)"
    by (simp add: registry_eval)
  from h1 h2
    Drivers_lists [of "[2, 1]" demo_registry "''osm''" "Some demo_std" None
      "fst (Register demo_registry ''osm'' (Some demo_std) None)"
      "[CallMVTRegister ''osm'' (Some demo_mvt) None, CallCleanup [1]]" "[1]"
      "Some demo_mvt"
      "fst (MVTRegister demo_registry ''osm'' (Some demo_mvt) None)"]
  show ?thesis by blast
qed

subsection \<open>Lookups\<close>

text \<open>
  Claim C2. When \<^verbatim>\<open>name\<close> is not in the registry, \<^verbatim>\<open>For\<close> returns the empty union and
  an \<^verbatim>\<open>ErrUnknownProvider\<close> whose \<^verbatim>\<open>KnownProviders\<close> is what its own call of
  \<^verbatim>\<open>Drivers(ProviderFilterAll)\<close> returned, in the order \<open>ro\<close> of that range. Another
  call of \<^verbatim>\<open>Drivers(ProviderFilterAll)\<close> in the same state ranges in an order \<open>ro'\<close> of
  its own: the two lists hold the same names, each once, namely the registered names,
  and may differ in order. The \<^verbatim>\<open>Name\<close> of the error is \<^verbatim>\<open>name\<close>, or empty when the
  map is still \<^verbatim>\<open>nil\<close>.
\<close>

theorem For_unknown:
  "registered s name = None \<Longrightarrow>
   For ro s name config
     = (\<lparr>Std = None, Mvt = None\<rparr>,
        Some (ErrUnknownProvider (Drivers ro s ProviderFilterAll)
                (if providers s = None then '''' else name))) \<and>
   distinct (Drivers ro s ProviderFilterAll) \<and>
   distinct (Drivers ro' s ProviderFilterAll) \<and>
   set (Drivers ro s ProviderFilterAll) = set (Drivers ro' s ProviderFilterAll) \<and>
   mset (Drivers ro s ProviderFilterAll) = mset (Drivers ro' s ProviderFilterAll) \<and>
   set (Drivers ro s ProviderFilterAll) = {n. registered s n \<noteq> None}"
proof -
  assume "registered s name = None"
  then have "For ro s name config
     = (\<lparr>Std = None, Mvt = None\<rparr>,
        Some (ErrUnknownProvider (Drivers ro s ProviderFilterAll)
                (if providers s = None then '''' else name)))"
    by (simp add: For_def registered_def split: option.splits)
  moreover have "mset (Drivers ro s ProviderFilterAll) = mset (Drivers ro' s ProviderFilterAll)"
    by (simp add: Drivers_All mset_range_order)
  ultimately show ?thesis
    by (simp add: distinct_Drivers set_Drivers_All)
qed

theorem For_unknown_witness:
  "registered demo_registry ''missing'' = None \<and>
   For [1] demo_registry ''missing'' ()
     = (\<lparr>Std = None, Mvt = None\<rparr>, Some (ErrUnknownProvider [''mvt'', ''std''] ''missing'')) \<and>
   Drivers [0] demo_registry ProviderFilterAll = [''std'', ''mvt''] \<and>
   set [''mvt'', ''std''] = set [''std'', ''mvt''] \<and>
   For [] (init_state (0::nat)) ''missing'' ()
     = (\<lparr>Std = None, Mvt = None\<rparr> :: nat TilerUnion, Some (ErrUnknownProvider [] ''''))"
proof -
  have h: "registered demo_registry ''missing'' = None"
    by (simp add: registry_eval)
  have d: "Drivers [1] demo_registry ProviderFilterAll = [''mvt'', ''std'']"
    "Drivers [0] demo_registry ProviderFilterAll = [''std'', ''mvt'']"
    by (simp_all add: registry_eval)
  have n: "providers demo_registry \<noteq> None"
    by (simp add: registry_eval)
  have h0: "registered (init_state (0::nat) :: (unit, nat, nat) state) ''missing'' = None"
    by (simp add: registry_eval)
  have d0: "Drivers [] (init_state (0::nat) :: (unit, nat, nat) state) ProviderFilterAll = []"
    "providers (init_state (0::nat) :: (unit, nat, nat) state) = None"
    by (simp_all add: registry_eval)
  from For_unknown [OF h, of "[1]" "()" "[0]"] For_unknown [OF h0, of "[]" "()" "[]"] h d n d0
  show ?thesis by simp
qed

text \<open>
  Claim C1. \<^verbatim>\<open>STDFor\<close> and \<^verbatim>\<open>MVTFor\<close>: when \<^verbatim>\<open>name\<close> is not in the registry the result
  is no handle and an \<^verbatim>\<open>ErrUnknownProvider\<close> (with the names of the requested flavor, and
  with \<^verbatim>\<open>name\<close> unless the map is still \<^verbatim>\<open>nil\<close>); when the entry of \<^verbatim>\<open>name\<close> lacks the
  requested initializer the result is no handle and an \<^verbatim>\<open>ErrInvalidProviderType\<close>, a
  different error, that holds \<^verbatim>\<open>name\<close>, the requested flavor (\<^verbatim>\<open>TypeStd\<close> or
  \<^verbatim>\<open>TypeMvt\<close>) and the names \<^verbatim>\<open>Drivers\<close> lists for that flavor; otherwise the result is
  the pair of handle and error that the initializer returns for \<^verbatim>\<open>config\<close>, unchanged.
  Each list of names is the one returned by the call of \<^verbatim>\<open>Drivers\<close> that the function
  makes, in the order of that range.
\<close>

theorem typed_lookup:
  "(registered s name = None \<longrightarrow>
      STDFor ro ro' s name config
        = (None, Some (ErrUnknownProvider (Drivers ro s ProviderFilterStd)
                         (if providers s = None then '''' else name))) \<and>
      MVTFor ro s name config
        = (None, Some (ErrUnknownProvider (Drivers ro s ProviderFilterMVT)
                         (if providers s = None then '''' else name)))) \<and>
   (registered s name = Some p \<and> init p = None \<longrightarrow>
      STDFor ro ro' s name config
        = (None, Some (ErrInvalidProviderType name TypeStd
                         (Drivers ro' s ProviderFilterStd)))) \<and>
   (registered s name = Some p \<and> mvtInit p = None \<longrightarrow>
      MVTFor ro s name config
        = (None, Some (ErrInvalidProviderType name TypeMvt
                         (Drivers ro s ProviderFilterMVT)))) \<and>
   (registered s name = Some p \<and> init p = Some f \<longrightarrow>
      STDFor ro ro' s name config = f config) \<and>
   (registered s name = Some p \<and> mvtInit p = Some g \<longrightarrow> MVTFor ro s name config = g config)"
  by (auto simp: STDFor_def MVTFor_def registered_def Drivers_def split: option.splits)

theorem typed_lookup_witness:
  "registered demo_registry ''missing'' = None \<and>
   STDFor [1] [0] demo_registry ''missing'' ()
     = (None, Some (ErrUnknownProvider [''std''] ''missing'')) \<and>
   MVTFor [1] demo_registry ''missing'' ()
     = (None, Some (ErrUnknownProvider [''mvt''] ''missing'')) \<and>
   registered demo_registry ''mvt''
     = Some \<lparr>init = None, mvtInit = Some demo_mvt, cleanup = Some Suc\<rparr> \<and>
   STDFor [1] [0] demo_registry ''mvt'' ()
     = (None, Some (ErrInvalidProviderType ''mvt'' TypeStd [''std''])) \<and>
   MVTFor [1] demo_registry ''mvt'' () = (Some (MVTTiler ([8], None)), None) \<and>
   registered demo_registry ''std''
     = Some \<lparr>init = Some demo_std, mvtInit = None, cleanup = None\<rparr> \<and>
   MVTFor [1] demo_registry ''std'' ()
     = (None, Some (ErrInvalidProviderType ''std'' TypeMvt [''mvt''])) \<and>
   STDFor [1] [0] demo_registry ''std'' () = (Some (Tiler ([7], None)), None)"
proof -
  have h0: "registered demo_registry ''missing'' = None"
    by (simp add: registry_eval)
  have h1: "registered demo_registry ''mvt''
              = Some \<lparr>init = None, mvtInit = Some demo_mvt, cleanup = Some Suc\<rparr>"
    by (simp add: registry_eval)
  have h2: "registered demo_registry ''std''
              = Some \<lparr>init = Some demo_std, mvtInit = None, cleanup = None\<rparr>"
    by (simp add: registry_eval)
  have d: "Drivers [1] demo_registry ProviderFilterStd = [''std'']"
    "Drivers [0] demo_registry ProviderFilterStd = [''std'']"
    "Drivers [1] demo_registry ProviderFilterMVT = [''mvt'']"
    "providers demo_registry \<noteq> None"
    by (simp_all add: registry_eval)
  from h0 h1 h2 d
    typed_lookup [of demo_registry "''missing''" "[1]" "[0]" "()"
      "\<lparr>init = Some demo_std, mvtInit = None, cleanup = None\<rparr>" demo_std demo_mvt]
    typed_lookup [of demo_registry "''mvt''" "[1]" "[0]" "()"
      "\<lparr>init = None, mvtInit = Some demo_mvt, cleanup = Some Suc\<rparr>" demo_std demo_mvt]
    typed_lookup [of demo_registry "''std''" "[1]" "[0]" "()"
      "\<lparr>init = Some demo_std, mvtInit = None, cleanup = None\<rparr>" demo_std demo_mvt]
  show ?thesis by (simp add: demo_std_def demo_mvt_def)
qed

text \<open>
  What does hold of the union \<^verbatim>\<open>For\<close> returns: at most one of its fields is set, the
  field of the flavor of the entry, and none when the name is not registered.
\<close>

lemma For_union_exclusive:
  "(Std (fst (For ro s name config)) = None \<or> Mvt (fst (For ro s name config)) = None) \<and>
   (registered s name = Some p \<and> init p \<noteq> None
      \<longrightarrow> Mvt (fst (For ro s name config)) = None) \<and>
   (registered s name = Some p \<and> init p = None
      \<longrightarrow> Std (fst (For ro s name config)) = None) \<and>
   (registered s name = None \<longrightarrow> fst (For ro s name config) = \<lparr>Std = None, Mvt = None\<rparr>)"
  by (auto simp: For_def registered_def Let_def split: option.splits)

text \<open>
  Claim C7. The comment of \<^verbatim>\<open>For\<close> says that both fields of the union are \<^verbatim>\<open>nil\<close>
  when there is an error. \<^verbatim>\<open>For\<close> stores what the initializer returns before it looks
  at the error: with a standard provider \<^verbatim>\<open>demo\<close> whose initializer returns a handle
  together with an error, \<^verbatim>\<open>For\<close> reports the error and \<^verbatim>\<open>Std\<close> is set.
\<close>

theorem For_error_with_handle:
  "For [] (fst (Register (init_state (0::nat)) ''demo''
               (Some (\<lambda>c::unit. (Some (Tiler ([] :: nat list, None)),
                                  Some (ErrorString ''bad config''))))
               None))
       ''demo'' ()
   = (\<lparr>Std = Some (Tiler ([], None)), Mvt = None\<rparr>, Some (ErrorString ''bad config''))"
  by (simp add: registry_eval For_def)

subsection \<open>Tiles\<close>

text \<open>
  Claim C9. \<^verbatim>\<open>NewTile\<close> builds the same tile whatever \<^verbatim>\<open>srid\<close> it is given, so
  nothing computed from the tile depends on that argument; \<^verbatim>\<open>Extent\<close> and
  \<^verbatim>\<open>BufferedExtent\<close> of the tile both return the identifier 3857.
\<close>

theorem srid_argument_ignored:
  "NewTile z x y buf srid = NewTile z x y buf srid' \<and>
   snd (Extent extent3857 (NewTile z x y buf srid)) = 3857 \<and>
   snd (BufferedExtent extent3857 expandBy pixels2Webs (NewTile z x y buf srid)) = 3857 \<and>
   Extent extent3857 (NewTile z x y buf srid) = Extent extent3857 (NewTile z x y buf srid') \<and>
   BufferedExtent extent3857 expandBy pixels2Webs (NewTile z x y buf srid) =
     BufferedExtent extent3857 expandBy pixels2Webs (NewTile z x y buf srid')"
  by (simp add: NewTile_def Extent_def BufferedExtent_def)

text \<open>
  The buffered extent is the extent expanded by what \<^verbatim>\<open>Pixels2Webs\<close> returns for the zoom
  and the buffer of the tile: the two methods agree as soon as expanding by the
  conversion of 0 pixels changes nothing.
\<close>

lemma BufferedExtent_zero_buffer:
  assumes "\<And>e z. expandBy e (pixels2Webs z 0) = e"
    and "buffer tile = 0"
  shows "BufferedExtent extent3857 expandBy pixels2Webs tile = Extent extent3857 tile"
  using assms by (simp add: BufferedExtent_def Extent_def)

lemma Pixels2Webs_zero: "Pixels2Webs scale zoom 0 = 0"
  by (simp add: Pixels2Webs_def)

lemma ExpandBy_zero: "ExpandBy e 0 = e"
  by (simp add: ExpandBy_def split: prod.splits)

text \<open>
  Claim C8. With \<^verbatim>\<open>ExpandBy\<close> and \<^verbatim>\<open>Pixels2Webs\<close> as the spec describes them, whatever
  the library's \<^verbatim>\<open>Extent3857\<close> and the scale: for every tile whose buffer is 0,
  \<^verbatim>\<open>BufferedExtent\<close> returns what \<^verbatim>\<open>Extent\<close> returns, the same box and the same
  identifier; in particular for every tile that \<^verbatim>\<open>NewTile\<close> builds with a buffer of 0.
\<close>

theorem zero_buffer_extent:
  "(buffer tile = 0 \<longrightarrow>
      BufferedExtent extent3857 ExpandBy (Pixels2Webs scale) tile = Extent extent3857 tile) \<and>
   BufferedExtent extent3857 ExpandBy (Pixels2Webs scale) (NewTile z x y 0 srid)
     = Extent extent3857 (NewTile z x y 0 srid)"
proof -
  have e: "\<And>e zoom. ExpandBy e (Pixels2Webs scale zoom 0) = e"
    by (simp add: Pixels2Webs_zero ExpandBy_zero)
  have "buffer (NewTile z x y 0 srid) = 0"
    by (simp add: NewTile_def)
  with e show ?thesis
    by (simp add: BufferedExtent_zero_buffer)
qed

theorem zero_buffer_extent_witness:
  "buffer (NewTile 3 1 2 0 4326) = 0 \<and>
   BufferedExtent (\<lambda>t. (- 10, - 20, 10, 20)) ExpandBy (Pixels2Webs 156543) (NewTile 3 1 2 0 4326)
     = ((- 10, - 20, 10, 20), 3857)"
proof -
  have h: "buffer (NewTile 3 1 2 0 4326) = 0"
    by (simp add: NewTile_def)
  from h zero_buffer_extent [of "NewTile 3 1 2 0 4326" "\<lambda>t. (- 10, - 20, 10, 20)" 156543 0 0 0 0]
  show ?thesis by (simp add: Extent_def)
qed

subsection \<open>Layers of a union\<close>

text \<open>
  Claim C10. \<^verbatim>\<open>TilerUnion.Layers\<close> answers with the \<^verbatim>\<open>Layers\<close> of the standard handle
  when \<^verbatim>\<open>Std\<close> is set, also when \<^verbatim>\<open>Mvt\<close> is set too; with the \<^verbatim>\<open>Layers\<close> of the
  alternate handle when only \<^verbatim>\<open>Mvt\<close> is set; and with no layers and
  \<^verbatim>\<open>ErrNilInitFunc\<close> when neither is set.
\<close>

theorem union_layers_dispatch:
  "(Std tu = Some t \<longrightarrow> TilerUnion_Layers tu = Tiler_Layers t) \<and>
   (Std tu = None \<and> Mvt tu = Some m \<longrightarrow> TilerUnion_Layers tu = MVTTiler_Layers m) \<and>
   (Std tu = None \<and> Mvt tu = None \<longrightarrow> TilerUnion_Layers tu = ([], Some ErrNilInitFunc))"
  by (simp add: TilerUnion_Layers_def)

theorem union_layers_dispatch_witness:
  "TilerUnion_Layers \<lparr>Std = Some (Tiler ([1::nat], None)),
                      Mvt = Some (MVTTiler ([2], None))\<rparr> = ([1], None) \<and>
   TilerUnion_Layers \<lparr>Std = None,
                      Mvt = Some (MVTTiler ([2::nat], Some (ErrorString ''x'')))\<rparr>
     = ([2], Some (ErrorString ''x'')) \<and>
   TilerUnion_Layers \<lparr>Std = None, Mvt = None\<rparr> = ([] :: nat list, Some ErrNilInitFunc)"
  using
    union_layers_dispatch [of "\<lparr>Std = Some (Tiler ([1::nat], None)),
                                Mvt = Some (MVTTiler ([2], None))\<rparr>"
                              "Tiler ([1], None)" "MVTTiler ([2], None)"]
    union_layers_dispatch [of "\<lparr>Std = None,
                                Mvt = Some (MVTTiler ([2::nat], Some (ErrorString ''x'')))\<rparr>"
                              "Tiler ([], None)" "MVTTiler ([2], Some (ErrorString ''x''))"]
    union_layers_dispatch [of "\<lparr>Std = None, Mvt = None\<rparr> :: nat TilerUnion"
                              "Tiler ([], None)" "MVTTiler ([], None)"]
  by simp

end
